theory Spec2Isabelle
  imports Complex_Main
begin

section \<open>Non-inferiority margin optimizer: a model of \<open>main.py\<close>\<close>

text \<open>
  The program is one Python script. It lets the user pick a CSV file, takes the column
  \<open>Dice\<close>, computes descriptive statistics, asks for two reference values, solves for the
  margin at which a one-sample t-test has p-value 0.05, plots, and shows a report.

  The script's own functions are translated one by one, under their own names. What they
  call in pandas, scipy, matplotlib and tkinter is not part of the script:
  \<^item> the hypothesis test \<open>ttest_1samp\<close>, the root finder \<open>root_scalar(..., method='brentq')\<close>,
    the CSV reader and Python's float formatting are fields of a record \<open>library\<close>, so every
    theorem holds for each behaviour these may have;
  \<^item> the four pandas reductions used by \<open>calculate_statistics\<close> are defined from their
    documentation, over exact arithmetic;
  \<^item> the answers of the user to the three dialogs are a record \<open>user\<close>;
  \<^item> everything the script shows or prints is an event of a trace, in program order.

  A Python float is a real number or NaN; rounding and infinities are not modelled.
  An exception is a value of type \<open>error\<close>, and a function that may raise returns a sum.
\<close>

subsection \<open>Values\<close>

datatype pyfloat = Fin real | NaN

fun pf_sub :: "pyfloat \<Rightarrow> pyfloat \<Rightarrow> pyfloat" where
  "pf_sub (Fin a) (Fin b) = Fin (a - b)"
| "pf_sub _ _ = NaN"

fun pf_mul :: "pyfloat \<Rightarrow> pyfloat \<Rightarrow> pyfloat" where
  "pf_mul (Fin a) (Fin b) = Fin (a * b)"
| "pf_mul _ _ = NaN"

text \<open>Every ordered comparison with NaN is false.\<close>

fun pf_less :: "pyfloat \<Rightarrow> pyfloat \<Rightarrow> bool" where
  "pf_less (Fin a) (Fin b) = (a < b)"
| "pf_less _ _ = False"

datatype error =
    ValueError string
  | TypeError
  | ZeroDivisionError
  | LibraryError string

datatype alternative = TwoSided | Less | Greater

type_synonym table = "(string \<times> pyfloat list) list"

datatype event =
    AskOpenFilename string
  | AskFloat string string pyfloat
  | ShowInfo string string
  | ShowError string string
  | PlotShown "real list" real real string
  | Print string

datatype outcome = Returned | Raised error

record 's library =
  read_csv :: "string \<Rightarrow> error + table"
  ttest_1samp :: "real list \<Rightarrow> real \<Rightarrow> alternative \<Rightarrow> 's \<times> pyfloat"
  brentq :: "(real \<Rightarrow> error + pyfloat) \<Rightarrow> real \<Rightarrow> real \<Rightarrow> error + real"
  str_float :: "pyfloat \<Rightarrow> string"
  str_stat :: "'s \<Rightarrow> string"
  format_2f :: "real \<Rightarrow> string"

record user =
  file_path :: string
  reference_median_input :: "real option"
  reference_mean_input :: "real option"

subsection \<open>The pandas reductions\<close>

text \<open>
  Modelled from the spec: \<open>Series.mean\<close>, \<open>Series.std\<close>, \<open>Series.median\<close> and
  \<open>Series.quantile\<close> belong to pandas, not to the script. The spec gives them as the
  arithmetic mean, the standard deviation with denominator \<open>n - 1\<close>, the median and the
  linearly interpolated percentile; each is NaN where pandas has no value (an empty series,
  and one element for the deviation). \<open>quantile\<close> is called with 0.25 and 0.75 only; its
  index stays in range for every \<open>q\<close> between 0 and 1.
\<close>

definition mean :: "real list \<Rightarrow> pyfloat" where
  "mean xs = (if xs = [] then NaN else Fin (sum_list xs / real (length xs)))"

definition std :: "real list \<Rightarrow> pyfloat" where
  "std xs =
     (if length xs < 2 then NaN
      else let m = sum_list xs / real (length xs)
           in Fin (sqrt (sum_list (map (\<lambda>x. (x - m)\<^sup>2) xs) / real (length xs - 1))))"

definition median :: "real list \<Rightarrow> pyfloat" where
  "median xs =
     (if xs = [] then NaN
      else let s = sort xs; n = length xs
           in if odd n then Fin (s ! (n div 2))
              else Fin ((s ! (n div 2 - 1) + s ! (n div 2)) / 2))"

definition quantile :: "real list \<Rightarrow> real \<Rightarrow> pyfloat" where
  "quantile xs q =
     (if xs = [] then NaN
      else let s = sort xs;
               h = real (length xs - 1) * q;
               lo = nat \<lfloor>h\<rfloor>;
               hi = min (lo + 1) (length xs - 1)
           in Fin (s ! lo + (h - real lo) * (s ! hi - s ! lo)))"

text \<open>\<open>dropna\<close> keeps the cells that hold a number.\<close>

fun dropna :: "pyfloat list \<Rightarrow> real list" where
  "dropna [] = []"
| "dropna (Fin x # cs) = x # dropna cs"
| "dropna (NaN # cs) = dropna cs"

subsection \<open>The script's functions\<close>

definition calculate_statistics ::
  "real list \<Rightarrow> pyfloat \<times> pyfloat \<times> pyfloat \<times> pyfloat \<times> pyfloat \<times> pyfloat" where
  "calculate_statistics data =
     (let mean' = mean data;
          std' = std data;
          median' = median data;
          q1 = quantile data (1/4);
          q3 = quantile data (3/4);
          iqr = pf_sub q3 q1
      in (mean', std', median', q1, q3, iqr))"

text \<open>
  \<open>reference_mean - non_inferiority_margin\<close> raises TypeError when the reference is None.
\<close>

definition perform_non_inferiority_test_parametric ::
  "'s library \<Rightarrow> real list \<Rightarrow> real option \<Rightarrow> real \<Rightarrow> error + ('s \<times> pyfloat)" where
  "perform_non_inferiority_test_parametric lib data reference_mean non_inferiority_margin =
     (case reference_mean of
        None \<Rightarrow> Inl TypeError
      | Some r \<Rightarrow>
          (let threshold = r - non_inferiority_margin
           in Inr (ttest_1samp lib data threshold Greater)))"

text \<open>The inner function of \<open>find_non_inferiority_margin\<close>.\<close>

definition objective_function ::
  "(real list \<Rightarrow> real option \<Rightarrow> real \<Rightarrow> error + ('s \<times> pyfloat)) \<Rightarrow>
   real list \<Rightarrow> real option \<Rightarrow> real \<Rightarrow> error + pyfloat" where
  "objective_function test_function data reference_value margin =
     (case test_function data reference_value margin of
        Inl e \<Rightarrow> Inl e
      | Inr (_, p_value) \<Rightarrow> Inr (pf_sub p_value (Fin (5/100))))"

text \<open>
  The diagnostic loop. Each margin comes with the text Python prints for it. The loop stops
  at the first margin whose objective raises; what was printed before stays printed.
\<close>

definition diagnostic_margins :: "(string \<times> real) list" where
  "diagnostic_margins =
     [(''0'', 0), (''0.25'', 1/4), (''0.5'', 1/2), (''0.75'', 3/4), (''1.0'', 1)]"

fun print_objective ::
  "(pyfloat \<Rightarrow> string) \<Rightarrow> (real \<Rightarrow> error + pyfloat) \<Rightarrow> (string \<times> real) list \<Rightarrow>
   event list \<times> error option" where
  "print_objective shw f [] = ([], None)"
| "print_objective shw f ((label, margin) # ms) =
     (case f margin of
        Inl e \<Rightarrow> ([], Some e)
      | Inr v \<Rightarrow>
          (let (out, r) = print_objective shw f ms
           in (Print (''Objective function at '' @ label @ '': '' @ shw v) # out, r)))"

definition no_sign_change :: string where
  "no_sign_change = ''Function does not change signs within the interval [0, 1]''"

definition find_non_inferiority_margin ::
  "'s library \<Rightarrow> real list \<Rightarrow> real option \<Rightarrow>
   (real list \<Rightarrow> real option \<Rightarrow> real \<Rightarrow> error + ('s \<times> pyfloat)) \<Rightarrow>
   event list \<times> (error + real)" where
  "find_non_inferiority_margin lib data reference_value test_function =
     (let f = objective_function test_function data reference_value;
          (out, raised) = print_objective (str_float lib) f diagnostic_margins
      in case raised of
           Some e \<Rightarrow> (out, Inl e)
         | None \<Rightarrow>
            (case f 0 of
               Inl e \<Rightarrow> (out, Inl e)
             | Inr f_start \<Rightarrow>
                (case f 1 of
                   Inl e \<Rightarrow> (out, Inl e)
                 | Inr f_end \<Rightarrow>
                    if pf_less (Fin 0) (pf_mul f_start f_end)
                    then (out, Inl (ValueError no_sign_change))
                    else (out, brentq lib f 0 1))))"

text \<open>
  \<open>plot_data\<close> draws one figure. It is called with a margin only; with no reference value
  its subtraction raises, a case \<open>main\<close> never reaches.
\<close>

definition plot_data :: "real list \<Rightarrow> real option \<Rightarrow> real \<Rightarrow> string \<Rightarrow> error + event" where
  "plot_data data reference_value non_inferiority_margin metric =
     (case reference_value of
        None \<Rightarrow> Inl TypeError
      | Some r \<Rightarrow> Inr (PlotShown data r (r - non_inferiority_margin) metric))"

subsection \<open>The top-level routine\<close>

text \<open>\<open>str\<close> of an optional value: the text \<open>None\<close> when it is absent.\<close>

definition str_opt :: "('a \<Rightarrow> string) \<Rightarrow> 'a option \<Rightarrow> string" where
  "str_opt shw v = (case v of None \<Rightarrow> ''None'' | Some x \<Rightarrow> shw x)"

text \<open>
  The conditional expression at the end of the report:
  \<open>'Pass' if p_value_p is not None and p_value_p < 0.05 else 'Fail'\<close>.
\<close>

definition verdict :: "pyfloat option \<Rightarrow> string" where
  "verdict p_value =
     (case p_value of
        None \<Rightarrow> ''Fail''
      | Some p \<Rightarrow> if pf_less p (Fin (5/100)) then ''Pass'' else ''Fail'')"

text \<open>
  The f-string of the report. Its fields are evaluated from left to right; the only one
  that can raise is the percentage, whose format \<open>.2f\<close> is refused by None with a TypeError.
\<close>

definition result_message ::
  "'s library \<Rightarrow> pyfloat \<Rightarrow> pyfloat \<Rightarrow> pyfloat \<Rightarrow> pyfloat \<Rightarrow> real option \<Rightarrow> real option \<Rightarrow>
   real option \<Rightarrow> real option \<Rightarrow> 's option \<Rightarrow> pyfloat option \<Rightarrow> error + string" where
  "result_message lib mean' std' median' iqr reference_median reference_mean
       non_inferiority_margin_p non_inferiority_percentage_p test_statistic_p p_value_p =
     (case non_inferiority_percentage_p of
        None \<Rightarrow> Inl TypeError
      | Some pct \<Rightarrow>
          Inr (''Calculated Mean: '' @ str_float lib mean' @ ''\<newline>''
             @ ''Calculated SD: '' @ str_float lib std' @ ''\<newline>''
             @ ''Calculated Median: '' @ str_float lib median' @ ''\<newline>''
             @ ''Calculated IQR: '' @ str_float lib iqr @ ''\<newline>\<newline>''
             @ ''Reference Median: '' @ str_opt (\<lambda>x. str_float lib (Fin x)) reference_median
             @ ''\<newline>''
             @ ''Parametric Test:\<newline>''
             @ ''Reference Mean: '' @ str_opt (\<lambda>x. str_float lib (Fin x)) reference_mean
             @ ''\<newline>''
             @ ''Non-Inferiority Margin: ''
             @ str_opt (\<lambda>x. str_float lib (Fin x)) non_inferiority_margin_p
             @ '' ('' @ format_2f lib pct @ ''% of mean)\<newline>''
             @ ''Test Statistic: '' @ str_opt (str_stat lib) test_statistic_p @ ''\<newline>''
             @ ''P-Value: '' @ str_opt (str_float lib) p_value_p @ ''\<newline>''
             @ ''Non-Inferiority Test Result: '' @ verdict p_value_p))"

text \<open>
  Step 4 of \<open>main\<close>, the \<open>try\<close> statement. Its handler catches ValueError only: it sets both
  variables to None and prints. Every other exception leaves the statement. Dividing by a
  reference mean of zero raises ZeroDivisionError.
\<close>

definition try_margin ::
  "'s library \<Rightarrow> real list \<Rightarrow> real option \<Rightarrow>
   event list \<times> (error + (real option \<times> real option))" where
  "try_margin lib dice_data reference_mean =
     (let (out, r) = find_non_inferiority_margin lib dice_data reference_mean
                       (perform_non_inferiority_test_parametric lib)
      in case r of
           Inr m \<Rightarrow>
             (case reference_mean of
                None \<Rightarrow> (out, Inl TypeError)
              | Some rm \<Rightarrow>
                  if rm = 0 then (out, Inl ZeroDivisionError)
                  else (out, Inr (Some m, Some (m / rm * 100))))
         | Inl (ValueError e) \<Rightarrow>
             (out @ [Print (''Failed to find non-inferiority margin for parametric test: '' @ e)],
              Inr (None, None))
         | Inl e \<Rightarrow> (out, Inl e))"

text \<open>The end of \<open>main\<close>: the report is built, shown in a dialog and printed.\<close>

definition display_results ::
  "'s library \<Rightarrow> event list \<Rightarrow> pyfloat \<Rightarrow> pyfloat \<Rightarrow> pyfloat \<Rightarrow> pyfloat \<Rightarrow> real option \<Rightarrow>
   real option \<Rightarrow> real option \<Rightarrow> real option \<Rightarrow> 's option \<Rightarrow> pyfloat option \<Rightarrow>
   event list \<times> outcome" where
  "display_results lib tr mean' std' median' iqr reference_median reference_mean
       margin pct test_statistic_p p_value_p =
     (case result_message lib mean' std' median' iqr reference_median reference_mean
             margin pct test_statistic_p p_value_p of
        Inl e \<Rightarrow> (tr, Raised e)
      | Inr msg \<Rightarrow> (tr @ [ShowInfo ''Non-Inferiority Test Result'' msg, Print msg], Returned))"

text \<open>Steps 2 to the end of \<open>main\<close>, once the column \<open>Dice\<close> has been read.\<close>

definition analyse :: "'s library \<Rightarrow> user \<Rightarrow> event list \<Rightarrow> pyfloat list \<Rightarrow> event list \<times> outcome" where
  "analyse lib usr tr column =
     (let dice_data = dropna column;
          (mean', std', median', q1, q3, iqr) = calculate_statistics dice_data;
          reference_median = reference_median_input usr;
          reference_mean = reference_mean_input usr;
          tr1 = tr @ [AskFloat ''Input'' ''Enter the reference median value:'' median',
                      AskFloat ''Input'' ''Enter the reference mean value:'' mean'];
          (out, r) = try_margin lib dice_data reference_mean;
          tr2 = tr1 @ out
      in case r of
           Inl e \<Rightarrow> (tr2, Raised e)
         | Inr (None, pct) \<Rightarrow>
             display_results lib tr2 mean' std' median' iqr reference_median reference_mean
               None pct None None
         | Inr (Some m, pct) \<Rightarrow>
             (case plot_data dice_data reference_mean m ''Mean'' of
                Inl e \<Rightarrow> (tr2, Raised e)
              | Inr shown \<Rightarrow>
                 (case perform_non_inferiority_test_parametric lib dice_data reference_mean m of
                    Inl e \<Rightarrow> (tr2 @ [shown], Raised e)
                  | Inr (test_statistic_p, p_value_p) \<Rightarrow>
                      display_results lib (tr2 @ [shown]) mean' std' median' iqr
                        reference_median reference_mean (Some m) pct
                        (Some test_statistic_p) (Some p_value_p))))"

text \<open>
  \<open>main\<close>. An empty path is the cancelled file dialog. \<open>read_csv\<close> may raise, outside every
  handler. A table is a list of named columns; \<open>'Dice' in df.columns\<close> is the lookup.
\<close>

definition main :: "'s library \<Rightarrow> user \<Rightarrow> event list \<times> outcome" where
  "main lib usr =
     (let tr = [AskOpenFilename ''Select CSV File'']
      in if file_path usr = []
         then (tr @ [ShowInfo ''Information'' ''No file selected. Exiting.''], Returned)
         else
           (case read_csv lib (file_path usr) of
              Inl e \<Rightarrow> (tr, Raised e)
            | Inr df \<Rightarrow>
               (case map_of df ''Dice'' of
                  None \<Rightarrow>
                    (tr @ [ShowError ''Error''
                             '''Dice' column not found in the selected file. Exiting.''],
                     Returned)
                | Some column \<Rightarrow> analyse lib usr tr column)))"

subsection \<open>The contract of the root finder\<close>



subsection \<open>Test doubles\<close>


text \<open>
  A library to run the model on: a reader that finds one table at every path, a test whose
  p-value is the threshold plus one half, a root finder that takes one secant step (exact
  on a linear objective), and formatting that tells only a number from NaN.
\<close>

definition secant_step :: "(real \<Rightarrow> error + pyfloat) \<Rightarrow> real \<Rightarrow> real \<Rightarrow> error + real" where
  "secant_step f a b =
     (case f a of
        Inr (Fin fa) \<Rightarrow>
          (case f b of
             Inr (Fin fb) \<Rightarrow>
               if fa = fb then Inl (ValueError ''f(a) and f(b) must have different signs'')
               else Inr (a - fa * (b - a) / (fb - fa))
           | Inr NaN \<Rightarrow> Inl (ValueError ''The function value is NaN; solver cannot continue.'')
           | Inl e \<Rightarrow> Inl e)
      | Inr NaN \<Rightarrow> Inl (ValueError ''The function value is NaN; solver cannot continue.'')
      | Inl e \<Rightarrow> Inl e)"

definition example_table :: table where
  "example_table = [(''Case'', [Fin 1, Fin 2, Fin 3, Fin 4]), (''Dice'', [Fin (4/5), NaN, Fin (9/10), Fin 1])]"

definition example_library :: "unit library" where
  "example_library =
     \<lparr> read_csv = (\<lambda>path. if path = ''nodice.csv'' then Inr [(''Case'', [Fin 1])]
                           else Inr example_table),
       ttest_1samp = (\<lambda>data threshold alt. ((), Fin (threshold + 1/2))),
       brentq = secant_step,
       str_float = (\<lambda>v. case v of Fin x \<Rightarrow> ''<float>'' | NaN \<Rightarrow> ''nan''),
       str_stat = (\<lambda>s. ''<float>''),
       format_2f = (\<lambda>x. ''<float>'') \<rparr>"

definition example_user :: "real \<Rightarrow> user" where
  "example_user r =
     \<lparr> file_path = ''dice.csv'', reference_median_input = Some (9/10),
       reference_mean_input = Some r \<rparr>"

subsection \<open>Auxiliary facts\<close>

lemma print_objective_total:
  assumes "\<And>m. \<exists>v. f m = Inr v"
  shows "\<exists>out. print_objective shw f ms = (out, None)"
proof (induction ms)
  case Nil
  show ?case by simp
next
  case (Cons a ms)
  obtain label m where a: "a = (label, m)" by (cases a)
  obtain v where v: "f m = Inr v" using assms by blast
  obtain out where "print_objective shw f ms = (out, None)" using Cons.IH by blast
  then show ?case by (simp add: a v)
qed

lemma print_objective_prints:
  "e \<in> set (fst (print_objective shw f ms)) \<Longrightarrow> \<exists>l v. e = Print (''Objective function at '' @ l @ '': '' @ shw v)"
proof (induction ms)
  case Nil
  then show ?case by simp
next
  case (Cons a ms)
  obtain label m where a: "a = (label, m)" by (cases a)
  show ?case
  proof (cases "f m")
    case (Inl err)
    with Cons.prems a show ?thesis by simp
  next
    case (Inr v)
    obtain out r where p: "print_objective shw f ms = (out, r)" by (cases "print_objective shw f ms")
    from Cons.prems a Inr p have "e = Print (''Objective function at '' @ label @ '': '' @ shw v) \<or> e \<in> set out"
      by simp
    then show ?thesis using Cons.IH p by auto
  qed
qed

lemma find_fst:
  "fst (find_non_inferiority_margin lib data ref tf) =
   fst (print_objective (str_float lib) (objective_function tf data ref) diagnostic_margins)"
  by (cases "print_objective (str_float lib) (objective_function tf data ref) diagnostic_margins")
     (simp add: find_non_inferiority_margin_def Let_def split: option.splits sum.splits)

lemma find_margin_total:
  assumes obj: "\<And>m. objective_function test_function data ref m = Inr (f m)"
  shows "find_non_inferiority_margin lib data ref test_function =
     (fst (print_objective (str_float lib) (objective_function test_function data ref)
             diagnostic_margins),
      if pf_less (Fin 0) (pf_mul (f 0) (f 1))
      then Inl (ValueError no_sign_change)
      else brentq lib (objective_function test_function data ref) 0 1)"
proof -
  obtain out where "print_objective (str_float lib) (objective_function test_function data ref)
      diagnostic_margins = (out, None)"
    using print_objective_total [of "objective_function test_function data ref"] by (auto simp: obj)
  then show ?thesis
    by (simp add: find_non_inferiority_margin_def obj)
qed

lemma find_margin_no_reference:
  "find_non_inferiority_margin lib data None (perform_non_inferiority_test_parametric lib) = ([], Inl TypeError)"
  by (simp add: find_non_inferiority_margin_def objective_function_def
        perform_non_inferiority_test_parametric_def diagnostic_margins_def)

lemma example_objective:
  "objective_function (perform_non_inferiority_test_parametric example_library) data (Some r) m
     = Inr (Fin (r - m + 9/20))"
  by (simp add: objective_function_def perform_non_inferiority_test_parametric_def example_library_def)

lemma example_find:
  "snd (find_non_inferiority_margin example_library data (Some r) (perform_non_inferiority_test_parametric example_library)) =
     (if 0 < (r + 9/20) * (r - 11/20) then Inl (ValueError no_sign_change) else Inr (r + 9/20))"
proof -
  have b: "brentq example_library = secant_step" by (simp add: example_library_def)
  show ?thesis
    unfolding find_margin_total [OF example_objective] b
    by (simp add: secant_step_def example_objective field_simps)
qed

lemma find_cases:
  obtains out r where "find_non_inferiority_margin lib data ref tf = (out, r)"
  by (cases "find_non_inferiority_margin lib data ref tf")

lemma append_exI: "m = b @ s \<Longrightarrow> \<exists>body. m = body @ s"
  by blast

lemma Inr_exI: "\<exists>y. (Inr x :: 'a + 'b) = Inr y"
  by blast

lemma result_message_defined:
  "\<exists>msg. result_message lib a b c d e f g (Some pct) st p = Inr msg"
  unfolding result_message_def option.case by (rule Inr_exI)

lemma result_message_last_line:
  assumes "result_message lib a b c d e f g (Some pct) st p = Inr msg"
  shows "\<exists>body. msg = body @ ''Non-Inferiority Test Result: '' @ verdict p"
proof -
  have "msg = (''Calculated Mean: '' @ str_float lib a @ ''\<newline>''
             @ ''Calculated SD: '' @ str_float lib b @ ''\<newline>''
             @ ''Calculated Median: '' @ str_float lib c @ ''\<newline>''
             @ ''Calculated IQR: '' @ str_float lib d @ ''\<newline>\<newline>''
             @ ''Reference Median: '' @ str_opt (\<lambda>x. str_float lib (Fin x)) e
             @ ''\<newline>''
             @ ''Parametric Test:\<newline>''
             @ ''Reference Mean: '' @ str_opt (\<lambda>x. str_float lib (Fin x)) f
             @ ''\<newline>''
             @ ''Non-Inferiority Margin: ''
             @ str_opt (\<lambda>x. str_float lib (Fin x)) g
             @ '' ('' @ format_2f lib pct @ ''% of mean)\<newline>''
             @ ''Test Statistic: '' @ str_opt (str_stat lib) st @ ''\<newline>''
             @ ''P-Value: '' @ str_opt (str_float lib) p @ ''\<newline>'')
          @ ''Non-Inferiority Test Result: '' @ verdict p"
    using assms unfolding result_message_def
    by (simp only: option.case sum.inject append_assoc)
  then show ?thesis by (rule append_exI)
qed

lemma main_margin_found:
  assumes "file_path usr \<noteq> []"
      and "read_csv lib (file_path usr) = Inr df"
      and "map_of df ''Dice'' = Some column"
      and "reference_mean_input usr = Some r"
      and "r \<noteq> 0"
      and "snd (find_non_inferiority_margin lib (dropna column) (Some r)
                 (perform_non_inferiority_test_parametric lib)) = Inr m"
  shows "main lib usr =
           display_results lib
             ([AskOpenFilename ''Select CSV File'',
               AskFloat ''Input'' ''Enter the reference median value:'' (median (dropna column)),
               AskFloat ''Input'' ''Enter the reference mean value:'' (mean (dropna column))]
              @ fst (find_non_inferiority_margin lib (dropna column) (Some r)
                       (perform_non_inferiority_test_parametric lib))
              @ [PlotShown (dropna column) r (r - m) ''Mean''])
             (mean (dropna column)) (std (dropna column))
             (median (dropna column))
             (pf_sub (quantile (dropna column) (3/4)) (quantile (dropna column) (1/4)))
             (reference_median_input usr) (Some r) (Some m) (Some (m / r * 100))
             (Some (fst (ttest_1samp lib (dropna column) (r - m) Greater)))
             (Some (snd (ttest_1samp lib (dropna column) (r - m) Greater)))"
proof -
  obtain out res where f: "find_non_inferiority_margin lib (dropna column) (Some r)
      (perform_non_inferiority_test_parametric lib) = (out, res)"
    by (rule find_cases)
  with assms(6) have res: "res = Inr m" by simp
  obtain st p where t: "ttest_1samp lib (dropna column) (r - m) Greater = (st, p)"
    by (cases "ttest_1samp lib (dropna column) (r - m) Greater")
  show ?thesis
    using assms(1-5) f res t
    by (simp add: main_def analyse_def try_margin_def calculate_statistics_def Let_def
          plot_data_def perform_non_inferiority_test_parametric_def)
qed

subsection \<open>The claims\<close>

text \<open>
  C1. When the solver raises its no-sign-change error, the handler of \<open>main\<close> catches it where
  the solver is called, sets the margin and the percentage to None and prints the diagnostic
  line. The report is then not shown: formatting the percentage None with \<open>.2f\<close> raises
  TypeError, \<open>main\<close> ends with that exception and no result dialog appears. The claim that the
  run continues to a report with absent fields fails on the code at every such input.
\<close>

theorem margin_not_found_aborts_report:
  assumes "file_path usr \<noteq> []"
      and "read_csv lib (file_path usr) = Inr df"
      and "map_of df ''Dice'' = Some column"
      and "snd (find_non_inferiority_margin lib (dropna column) (reference_mean_input usr)
                 (perform_non_inferiority_test_parametric lib))
             = Inl (ValueError no_sign_change)"
  shows "main lib usr =
          ([AskOpenFilename ''Select CSV File'',
            AskFloat ''Input'' ''Enter the reference median value:'' (median (dropna column)),
            AskFloat ''Input'' ''Enter the reference mean value:'' (mean (dropna column))]
           @ fst (find_non_inferiority_margin lib (dropna column) (reference_mean_input usr)
                    (perform_non_inferiority_test_parametric lib))
           @ [Print (''Failed to find non-inferiority margin for parametric test: ''
                       @ no_sign_change)],
           Raised TypeError)
       \<and> (\<forall>e \<in> set (fst (main lib usr)). \<forall>title msg. e \<noteq> ShowInfo title msg)"
proof -
  obtain out r where f: "find_non_inferiority_margin lib (dropna column) (reference_mean_input usr)
      (perform_non_inferiority_test_parametric lib) = (out, r)"
    by (rule find_cases)
  with assms(4) have r: "r = Inl (ValueError no_sign_change)" by simp
  have m: "main lib usr =
          ([AskOpenFilename ''Select CSV File'',
            AskFloat ''Input'' ''Enter the reference median value:'' (median (dropna column)),
            AskFloat ''Input'' ''Enter the reference mean value:'' (mean (dropna column))]
           @ out
           @ [Print (''Failed to find non-inferiority margin for parametric test: ''
                       @ no_sign_change)],
           Raised TypeError)"
    using assms(1-3) f r
    by (simp add: main_def analyse_def try_margin_def calculate_statistics_def Let_def
          display_results_def result_message_def)
  have out: "\<exists>l v. e = Print (''Objective function at '' @ l @ '': '' @ str_float lib v)"
    if "e \<in> set out" for e
    using that f find_fst [of lib "dropna column" "reference_mean_input usr"
        "perform_non_inferiority_test_parametric lib"]
      print_objective_prints [of e "str_float lib"] by simp
  have "\<forall>e \<in> set (fst (main lib usr)). \<forall>title msg. e \<noteq> ShowInfo title msg"
    unfolding m using out by auto
  with m f show ?thesis by simp
qed

theorem margin_not_found_aborts_report_witness:
  "snd (main example_library (example_user 1)) = Raised TypeError"
proof -
  let ?col = "[Fin (4/5), NaN, Fin (9/10), Fin 1]"
  have f: "snd (find_non_inferiority_margin example_library (dropna ?col)
             (reference_mean_input (example_user 1))
             (perform_non_inferiority_test_parametric example_library))
           = Inl (ValueError no_sign_change)"
    by (simp add: example_find example_user_def)
  have "file_path (example_user 1) \<noteq> []"
    and "read_csv example_library (file_path (example_user 1)) = Inr example_table"
    and "map_of example_table ''Dice'' = Some ?col"
    by (simp_all add: example_user_def example_library_def example_table_def)
  from margin_not_found_aborts_report [OF this f]
  show ?thesis by simp
qed

text \<open>
  C2. For a test function that returns a p-value at every margin, with objective
  \<open>p_value m - 0.05\<close>: the solver raises ValueError with the no-sign-change text exactly when
  \<open>objective 0 * objective 1 > 0\<close>; a product equal to zero does not raise it; and when the
  product is positive no root is returned. The root finder is assumed not to raise a
  ValueError with that same text on this objective (scipy's own messages differ).
\<close>

theorem no_sign_change_raised_iff:
  assumes "\<forall>m. test_function data ref m = Inr (stat m, p_value m)"
      and "brentq lib (objective_function test_function data ref) 0 1 \<noteq> Inl (ValueError no_sign_change)"
  shows "let objective = (\<lambda>m. pf_sub (p_value m) (Fin (5/100)));
             product = pf_mul (objective 0) (objective 1);
             result = snd (find_non_inferiority_margin lib data ref test_function)
         in (result = Inl (ValueError no_sign_change) \<longleftrightarrow> pf_less (Fin 0) product)
          \<and> (product = Fin 0 \<longrightarrow> result \<noteq> Inl (ValueError no_sign_change))
          \<and> (pf_less (Fin 0) product \<longrightarrow> (\<forall>x. result \<noteq> Inr x))"
proof -
  have obj: "\<And>m. objective_function test_function data ref m
               = Inr (pf_sub (p_value m) (Fin (5/100)))"
    using assms(1) by (simp add: objective_function_def)
  show ?thesis
    using assms(2) by (simp add: find_margin_total [OF obj] Let_def)
qed

theorem no_sign_change_raised_iff_witness:
  "snd (find_non_inferiority_margin example_library [4/5, 9/10, 1] (Some 1)
          (perform_non_inferiority_test_parametric example_library))
     = Inl (ValueError no_sign_change)
   \<and> snd (find_non_inferiority_margin example_library [4/5, 9/10, 1] (Some (11/20))
          (perform_non_inferiority_test_parametric example_library))
     \<noteq> Inl (ValueError no_sign_change)"
proof -
  have lib: "brentq example_library (objective_function
               (perform_non_inferiority_test_parametric example_library) [4/5, 9/10, 1] (Some r)) 0 1
             \<noteq> Inl (ValueError no_sign_change)" for r
    by (simp add: example_library_def secant_step_def no_sign_change_def objective_function_def
          perform_non_inferiority_test_parametric_def)
  have tf: "\<forall>m. perform_non_inferiority_test_parametric example_library [4/5, 9/10, 1] (Some r) m
              = Inr ((), Fin (r - m + 1/2))" for r
    by (simp add: perform_non_inferiority_test_parametric_def example_library_def)
  show ?thesis
    using no_sign_change_raised_iff [where test_function = "perform_non_inferiority_test_parametric example_library"
        and data = "[4/5, 9/10, 1]" and ref = "Some 1" and stat = "\<lambda>_. ()"
        and p_value = "\<lambda>m. Fin (1 - m + 1/2)" and lib = example_library, OF tf lib]
      no_sign_change_raised_iff [where test_function = "perform_non_inferiority_test_parametric example_library"
        and data = "[4/5, 9/10, 1]" and ref = "Some (11/20)" and stat = "\<lambda>_. ()"
        and p_value = "\<lambda>m. Fin (11/20 - m + 1/2)" and lib = example_library, OF tf lib]
    by (simp add: Let_def)
qed



text \<open>
  C4. For every sample, reference mean \<open>r\<close> and margin \<open>m\<close>, the parametric test computes the
  threshold \<open>r - m\<close> and returns the pair (statistic, p-value) of the one-sample t-test of the
  sample against that threshold with the alternative \<open>greater\<close>.
\<close>

theorem parametric_test_is_one_sided_ttest:
  "perform_non_inferiority_test_parametric lib data (Some r) m =
     Inr (ttest_1samp lib data (r - m) Greater)"
  by (simp add: perform_non_inferiority_test_parametric_def)

text \<open>
  C5. The verdict is \<open>Pass\<close> exactly when the p-value is strictly below 0.05 and \<open>Fail\<close>
  otherwise; a p-value equal to 0.05 gives \<open>Fail\<close> and an absent p-value gives \<open>Fail\<close>. When a
  margin has been found (and the reference mean is not zero), \<open>main\<close> returns after showing and
  printing a report whose last line is the verdict of the p-value re-evaluated at that margin.
\<close>

theorem verdict_strictly_below_threshold:
  "(verdict (Some p) = ''Pass'' \<longleftrightarrow> pf_less p (Fin (5/100)))
   \<and> (verdict (Some p) = ''Fail'' \<longleftrightarrow> \<not> pf_less p (Fin (5/100)))
   \<and> verdict (Some (Fin (5/100))) = ''Fail''
   \<and> verdict None = ''Fail''
   \<and> (file_path usr \<noteq> [] \<and> read_csv lib (file_path usr) = Inr df
        \<and> map_of df ''Dice'' = Some column
        \<and> reference_mean_input usr = Some r \<and> r \<noteq> 0
        \<and> snd (find_non_inferiority_margin lib (dropna column) (Some r)
                 (perform_non_inferiority_test_parametric lib)) = Inr m
      \<longrightarrow> (\<exists>tr body.
             main lib usr =
               (tr @ [ShowInfo ''Non-Inferiority Test Result''
                        (body @ ''Non-Inferiority Test Result: ''
                            @ verdict (Some (snd (ttest_1samp lib (dropna column) (r - m) Greater)))),
                      Print (body @ ''Non-Inferiority Test Result: ''
                            @ verdict (Some (snd (ttest_1samp lib (dropna column) (r - m) Greater))))],
                Returned)))"
proof (intro conjI impI)
  show "verdict (Some p) = ''Pass'' \<longleftrightarrow> pf_less p (Fin (5/100))"
    by (simp add: verdict_def)
  show "verdict (Some p) = ''Fail'' \<longleftrightarrow> \<not> pf_less p (Fin (5/100))"
    by (simp add: verdict_def)
  show "verdict (Some (Fin (5/100))) = ''Fail''"
    by (simp add: verdict_def)
  show "verdict None = ''Fail''"
    by (simp add: verdict_def)
next
  let ?p = "snd (ttest_1samp lib (dropna column) (r - m) Greater)"
  assume a: "file_path usr \<noteq> [] \<and> read_csv lib (file_path usr) = Inr df
        \<and> map_of df ''Dice'' = Some column
        \<and> reference_mean_input usr = Some r \<and> r \<noteq> 0
        \<and> snd (find_non_inferiority_margin lib (dropna column) (Some r)
                 (perform_non_inferiority_test_parametric lib)) = Inr m"
  define tr where "tr = [AskOpenFilename ''Select CSV File'',
               AskFloat ''Input'' ''Enter the reference median value:'' (median (dropna column)),
               AskFloat ''Input'' ''Enter the reference mean value:'' (mean (dropna column))]
              @ fst (find_non_inferiority_margin lib (dropna column) (Some r)
                       (perform_non_inferiority_test_parametric lib))
              @ [PlotShown (dropna column) r (r - m) ''Mean'']"
  from a have m: "main lib usr =
           display_results lib tr (mean (dropna column)) (std (dropna column))
             (median (dropna column))
             (pf_sub (quantile (dropna column) (3/4)) (quantile (dropna column) (1/4)))
             (reference_median_input usr) (Some r) (Some m) (Some (m / r * 100))
             (Some (fst (ttest_1samp lib (dropna column) (r - m) Greater)))
             (Some ?p)"
    unfolding tr_def by (intro main_margin_found [of usr lib df column r m]) simp_all
  obtain msg where r: "result_message lib (mean (dropna column)) (std (dropna column))
             (median (dropna column))
             (pf_sub (quantile (dropna column) (3/4)) (quantile (dropna column) (1/4)))
             (reference_median_input usr) (Some r) (Some m) (Some (m / r * 100))
             (Some (fst (ttest_1samp lib (dropna column) (r - m) Greater)))
             (Some ?p) = Inr msg"
    using result_message_defined by blast
  from result_message_last_line [OF r] obtain body
    where b: "msg = body @ ''Non-Inferiority Test Result: '' @ verdict (Some ?p)" by blast
  have fin: "main lib usr =
               (tr @ [ShowInfo ''Non-Inferiority Test Result''
                        (body @ ''Non-Inferiority Test Result: '' @ verdict (Some ?p)),
                      Print (body @ ''Non-Inferiority Test Result: '' @ verdict (Some ?p))],
                Returned)"
    unfolding m display_results_def r b by (simp only: sum.case)
  show "\<exists>tr body.
             main lib usr =
               (tr @ [ShowInfo ''Non-Inferiority Test Result''
                        (body @ ''Non-Inferiority Test Result: '' @ verdict (Some ?p)),
                      Print (body @ ''Non-Inferiority Test Result: '' @ verdict (Some ?p))],
                Returned)"
    by (rule exI [of _ tr], rule exI [of _ body], rule fin)
qed

theorem verdict_strictly_below_threshold_witness:
  "\<exists>tr body. main example_library (example_user (9/20)) =
      (tr @ [ShowInfo ''Non-Inferiority Test Result''
               (body @ ''Non-Inferiority Test Result: '' @ ''Fail''),
             Print (body @ ''Non-Inferiority Test Result: '' @ ''Fail'')],
       Returned)"
proof -
  let ?col = "[Fin (4/5), NaN, Fin (9/10), Fin 1]"
  have f: "snd (find_non_inferiority_margin example_library (dropna ?col) (Some (9/20))
             (perform_non_inferiority_test_parametric example_library)) = Inr (9/10)"
    by (simp add: example_find)
  have v: "verdict (Some (snd (ttest_1samp example_library (dropna ?col) (9/20 - 9/10) Greater)))
             = ''Fail''"
    by (simp add: verdict_def example_library_def)
  have h: "file_path (example_user (9/20)) \<noteq> []
      \<and> read_csv example_library (file_path (example_user (9/20))) = Inr example_table
      \<and> map_of example_table ''Dice'' = Some ?col
      \<and> reference_mean_input (example_user (9/20)) = Some (9/20) \<and> (9/20 :: real) \<noteq> 0
      \<and> snd (find_non_inferiority_margin example_library (dropna ?col) (Some (9/20))
             (perform_non_inferiority_test_parametric example_library)) = Inr (9/10)"
    using f by (simp add: example_user_def example_library_def example_table_def)
  from verdict_strictly_below_threshold [where usr = "example_user (9/20)"
      and lib = example_library and df = example_table and column = ?col
      and r = "9/20" and m = "9/10" and p = "Fin 0"] h
  show ?thesis unfolding v by blast
qed

text \<open>
  C6. For every non-empty sample \<open>calculate_statistics\<close> returns the arithmetic mean, the
  standard deviation with denominator \<open>n - 1\<close> (NaN for one element), the median, the linearly
  interpolated 25th and 75th percentiles and their difference; on the integers 1 to 9 it
  returns mean 5, median 5, Q1 3, Q3 7 and IQR 4.
\<close>

theorem calculate_statistics_values:
  "(xs \<noteq> [] \<longrightarrow>
      (let n = length xs;
           s = sort xs;
           m = sum_list xs / real n;
           percentile = (\<lambda>q. let h = real (n - 1) * q; j = nat \<lfloor>h\<rfloor>
                              in s ! j + (h - real j) * (s ! min (j + 1) (n - 1) - s ! j));
           q1 = percentile (1/4);
           q3 = percentile (3/4)
       in calculate_statistics xs =
            (Fin m,
             (if n = 1 then NaN
              else Fin (sqrt (sum_list (map (\<lambda>x. (x - m)\<^sup>2) xs) / real (n - 1)))),
             Fin (if odd n then s ! (n div 2) else (s ! (n div 2 - 1) + s ! (n div 2)) / 2),
             Fin q1, Fin q3, Fin (q3 - q1))))
   \<and> calculate_statistics [1, 2, 3, 4, 5, 6, 7, 8, 9] =
        (Fin 5, Fin (sqrt (15/2)), Fin 5, Fin 3, Fin 7, Fin 4)"
proof (intro conjI impI)
  assume ne: "xs \<noteq> []"
  then have len: "length xs < 2 \<longleftrightarrow> length xs = 1"
    by (cases xs) auto
  show "let n = length xs;
           s = sort xs;
           m = sum_list xs / real n;
           percentile = (\<lambda>q. let h = real (n - 1) * q; j = nat \<lfloor>h\<rfloor>
                              in s ! j + (h - real j) * (s ! min (j + 1) (n - 1) - s ! j));
           q1 = percentile (1/4);
           q3 = percentile (3/4)
       in calculate_statistics xs =
            (Fin m,
             (if n = 1 then NaN
              else Fin (sqrt (sum_list (map (\<lambda>x. (x - m)\<^sup>2) xs) / real (n - 1)))),
             Fin (if odd n then s ! (n div 2) else (s ! (n div 2 - 1) + s ! (n div 2)) / 2),
             Fin q1, Fin q3, Fin (q3 - q1))"
    using ne len
    by (simp add: calculate_statistics_def mean_def std_def median_def quantile_def Let_def)
next
  show "calculate_statistics [1, 2, 3, 4, 5, 6, 7, 8, 9] =
        (Fin 5, Fin (sqrt (15/2)), Fin 5, Fin 3, Fin 7, Fin 4)"
    by (simp add: calculate_statistics_def mean_def std_def median_def quantile_def)
qed

theorem calculate_statistics_values_witness:
  "calculate_statistics [4/5, 9/10, 1] = (Fin (9/10), Fin (1/10), Fin (9/10), Fin (17/20), Fin (19/20), Fin (1/10))"
  using calculate_statistics_values [of "[4/5, 9/10, 1]"]
  by (simp add: Let_def real_sqrt_divide power2_eq_square)

text \<open>
  C7. With the reference-mean prompt cancelled, the None reaches the hypothesis test, whose
  threshold computation raises TypeError at the first evaluation of the objective, before
  anything is printed. The exception leaves the solver and then the \<open>try\<close> statement, whose
  handler for ValueError does not catch it: the statement ends with the TypeError, not with
  a margin of None. \<open>main\<close> ends with that exception, having shown only the file dialog and
  the two prompts.
\<close>

theorem cancelled_reference_mean_aborts:
  assumes "file_path usr \<noteq> []"
      and "read_csv lib (file_path usr) = Inr df"
      and "map_of df ''Dice'' = Some column"
      and "reference_mean_input usr = None"
  shows "perform_non_inferiority_test_parametric lib (dropna column) (reference_mean_input usr) 0
           = Inl TypeError
       \<and> find_non_inferiority_margin lib (dropna column) (reference_mean_input usr)
            (perform_non_inferiority_test_parametric lib) = ([], Inl TypeError)
       \<and> try_margin lib (dropna column) (reference_mean_input usr) = ([], Inl TypeError)
       \<and> main lib usr =
          ([AskOpenFilename ''Select CSV File'',
            AskFloat ''Input'' ''Enter the reference median value:'' (median (dropna column)),
            AskFloat ''Input'' ''Enter the reference mean value:'' (mean (dropna column))],
           Raised TypeError)"
proof -
  have t: "try_margin lib (dropna column) None = ([], Inl TypeError)"
    by (simp add: try_margin_def find_margin_no_reference)
  have m: "main lib usr =
          ([AskOpenFilename ''Select CSV File'',
            AskFloat ''Input'' ''Enter the reference median value:'' (median (dropna column)),
            AskFloat ''Input'' ''Enter the reference mean value:'' (mean (dropna column))],
           Raised TypeError)"
    using assms
    by (simp add: main_def analyse_def t calculate_statistics_def Let_def)
  show ?thesis
    using assms(4) t m
    by (simp add: find_margin_no_reference perform_non_inferiority_test_parametric_def)
qed

theorem cancelled_reference_mean_aborts_witness:
  "try_margin example_library [4/5, 9/10, 1] None = ([], Inl TypeError)
   \<and> main example_library (example_user 1\<lparr>reference_mean_input := None\<rparr>) =
          ([AskOpenFilename ''Select CSV File'',
            AskFloat ''Input'' ''Enter the reference median value:'' (Fin (9/10)),
            AskFloat ''Input'' ''Enter the reference mean value:'' (Fin (9/10))],
           Raised TypeError)"
  using cancelled_reference_mean_aborts [of "example_user 1\<lparr>reference_mean_input := None\<rparr>"
      example_library example_table "[Fin (4/5), NaN, Fin (9/10), Fin 1]"]
  by (simp add: example_user_def example_library_def example_table_def median_def mean_def)

text \<open>
  C8. With a margin found and a reference mean of zero, the percentage computation raises
  ZeroDivisionError, which leaves the \<open>try\<close> statement uncaught: \<open>main\<close> ends with that
  exception, no dialog with a report is shown and the handler's message is not printed.
\<close>

theorem zero_reference_mean_aborts:
  assumes "file_path usr \<noteq> []"
      and "read_csv lib (file_path usr) = Inr df"
      and "map_of df ''Dice'' = Some column"
      and "reference_mean_input usr = Some 0"
      and "snd (find_non_inferiority_margin lib (dropna column) (Some 0)
                 (perform_non_inferiority_test_parametric lib)) = Inr m"
  shows "snd (main lib usr) = Raised ZeroDivisionError
       \<and> (\<forall>e \<in> set (fst (main lib usr)).
             (\<forall>title msg. e \<noteq> ShowInfo title msg)
           \<and> (\<forall>msg. e \<noteq> Print (''Failed to find non-inferiority margin for parametric test: '' @ msg)))"
proof -
  obtain out r where f: "find_non_inferiority_margin lib (dropna column) (Some 0)
      (perform_non_inferiority_test_parametric lib) = (out, r)"
    by (rule find_cases)
  with assms(5) have r: "r = Inr m" by simp
  have m: "main lib usr =
          ([AskOpenFilename ''Select CSV File'',
            AskFloat ''Input'' ''Enter the reference median value:'' (median (dropna column)),
            AskFloat ''Input'' ''Enter the reference mean value:'' (mean (dropna column))] @ out,
           Raised ZeroDivisionError)"
    using assms(1-4) f r
    by (simp add: main_def analyse_def try_margin_def calculate_statistics_def Let_def)
  have out: "\<exists>l v. e = Print (''Objective function at '' @ l @ '': '' @ str_float lib v)"
    if "e \<in> set out" for e
    using that f find_fst [of lib "dropna column" "Some 0" "perform_non_inferiority_test_parametric lib"]
      print_objective_prints [of e "str_float lib"] by simp
  show ?thesis
    unfolding m using out by auto
qed

theorem zero_reference_mean_aborts_witness:
  "snd (main example_library (example_user 0)) = Raised ZeroDivisionError"
proof -
  have "snd (find_non_inferiority_margin example_library (dropna [Fin (4/5), NaN, Fin (9/10), Fin 1])
          (Some 0) (perform_non_inferiority_test_parametric example_library)) = Inr (9/20)"
    by (simp add: example_find)
  from zero_reference_mean_aborts [of "example_user 0" example_library example_table
      "[Fin (4/5), NaN, Fin (9/10), Fin 1]" "9/20", OF _ _ _ _ this]
  show ?thesis
    by (simp add: example_user_def example_library_def example_table_def)
qed

text \<open>
  C9. When the file dialog returns no path, \<open>main\<close> shows one informational dialog and
  returns; when the table read has no column named \<open>Dice\<close>, it shows one error dialog and
  returns. In both cases nothing else happens: no prompt, no diagnostic line, no plot, no
  report, no exception.
\<close>

theorem guarded_exits_return:
  "(file_path usr = [] \<longrightarrow>
      main lib usr =
        ([AskOpenFilename ''Select CSV File'',
          ShowInfo ''Information'' ''No file selected. Exiting.''], Returned))
   \<and> (file_path usr \<noteq> [] \<and> read_csv lib (file_path usr) = Inr df \<and> map_of df ''Dice'' = None \<longrightarrow>
      main lib usr =
        ([AskOpenFilename ''Select CSV File'',
          ShowError ''Error'' '''Dice' column not found in the selected file. Exiting.''],
         Returned))"
  by (simp add: main_def)

theorem guarded_exits_return_witness:
  "main example_library (example_user 1\<lparr>file_path := []\<rparr>) =
        ([AskOpenFilename ''Select CSV File'',
          ShowInfo ''Information'' ''No file selected. Exiting.''], Returned)
   \<and> main example_library (example_user 1\<lparr>file_path := ''nodice.csv''\<rparr>) =
        ([AskOpenFilename ''Select CSV File'',
          ShowError ''Error'' '''Dice' column not found in the selected file. Exiting.''],
         Returned)"
  using guarded_exits_return [of "example_user 1\<lparr>file_path := []\<rparr>" example_library]
    guarded_exits_return [of "example_user 1\<lparr>file_path := ''nodice.csv''\<rparr>" example_library
      "[(''Case'', [Fin 1])]"]
  by (simp add: example_user_def example_library_def)

end
